theory Spec2Isabelle
  imports Main "HOL-Library.Word"
begin

section \<open>The push notification server: data model\<close>

text \<open>
  The development follows \<^verbatim>\<open>protocol/push_notification_server/push_notification_server.go\<close>.
  Byte slices are lists of 8-bit words, Go strings are \<open>string\<close>, \<open>uint64\<close> is
  \<open>64 word\<close> (its order is the unsigned one, as Go's), and a Go pointer or slice that the
  code compares with \<open>nil\<close> is an \<open>option\<close>.
  A Go \<open>(value, error)\<close> result is a sum \<open>error + value\<close> with \<open>Inl\<close> the error, and a
  plain \<open>error\<close> result is an \<open>error option\<close>.
  Logging through zap is not part of the model, and neither are the three handlers with the
  suffix 2, which only marshal the response of the handler they wrap and hand it to the
  message processor.
\<close>

type_synonym bytes = "8 word list"

text \<open>
  The sentinel errors of the package, by the names the server uses them under. An error made
  anywhere else (\<open>errors.New\<close> in \<open>validateUUID\<close>, the crypto library, the persistence
  layer) is \<open>OtherError\<close> with its message.
\<close>

datatype error =
    ErrEmptyPushNotificationRegistrationPayload
  | ErrEmptyPushNotificationRegistrationPublicKey
  | ErrCouldNotUnmarshalPushNotificationRegistration
  | ErrInvalidPushNotificationRegistrationVersion
  | ErrMalformedPushNotificationRegistrationInstallationID
  | ErrMalformedPushNotificationRegistrationAccessToken
  | ErrMalformedPushNotificationRegistrationDeviceToken
  | ErrUnknownPushNotificationRegistrationTokenType
  | OtherError string

subsection \<open>Protocol messages\<close>

text \<open>
  The generated protobuf structs are not among the sources; the records below have the fields
  the server reads and writes, under the names it uses. A field name that several messages
  share carries the message as a suffix (\<open>_info\<close>, \<open>_pn\<close>, \<open>_report\<close>, ...), the
  registration keeps the plain names.
\<close>

text \<open>
  Modelled from the spec: the registration message, "version (unsigned integer),
  installationId (string), accessToken (string), deviceToken (bytes/string), tokenType (enum),
  unregister (bool), allowedUserList (repeated identity strings)". The token type is the
  \<open>int32\<close> a protobuf enum is in Go.
\<close>

record PushNotificationRegistration =
  Token :: string
  TokenType :: "32 word"
  InstallationId :: string
  AccessToken :: string
  Version :: "64 word"
  Unregister :: bool
  AllowedUserList :: "string list"

text \<open>
  Modelled from the spec: the constant \<open>protobuf.PushNotificationRegistration_UNKNOWN_TOKEN_TYPE\<close>
  is declared in the generated code; it is the "unknown" value of the enumeration, which
  proto3 numbers 0.
\<close>

definition PushNotificationRegistration_UNKNOWN_TOKEN_TYPE :: "32 word" where
  "PushNotificationRegistration_UNKNOWN_TOKEN_TYPE = 0"

record PushNotificationQuery =
  PublicKeys :: "bytes list"

record PushNotificationQueryInfo =
  PublicKey_info :: bytes
  InstallationId_info :: string
  AccessToken_info :: string
  AllowedUserList_info :: "string list"

record PushNotificationQueryResponse =
  Info :: "PushNotificationQueryInfo list"
  Success_query :: bool

text \<open>One entry of a notification request (the loop variable \<open>pn\<close>).\<close>

record PushNotification =
  PublicKey_pn :: bytes
  InstallationId_pn :: string
  AccessToken_pn :: string

record PushNotificationRequest =
  MessageId :: bytes
  Requests :: "PushNotification list"

text \<open>
  The error enumerations of the two responses, by the names the server assigns. In both,
  \<open>UNKNOWN_ERROR_TYPE\<close> is the enumeration's first value, so it is also what the field of a
  freshly made message holds.
\<close>

datatype PushNotificationReport_ErrorType =
    PushNotificationReport_UNKNOWN_ERROR_TYPE
  | PushNotificationReport_WRONG_TOKEN
  | PushNotificationReport_NOT_REGISTERED

record PushNotificationReport =
  PublicKey_report :: bytes
  InstallationId_report :: string
  Error_report :: PushNotificationReport_ErrorType
  Success_report :: bool

record PushNotificationResponse =
  MessageId_response :: bytes
  Reports :: "PushNotificationReport list"

datatype PushNotificationRegistrationResponse_ErrorType =
    PushNotificationRegistrationResponse_UNKNOWN_ERROR_TYPE
  | PushNotificationRegistrationResponse_MALFORMED_MESSAGE
  | PushNotificationRegistrationResponse_VERSION_MISMATCH
  | PushNotificationRegistrationResponse_INTERNAL_ERROR

record PushNotificationRegistrationResponse =
  RequestId :: bytes
  Error_registration :: PushNotificationRegistrationResponse_ErrorType
  Success_registration :: bool

subsection \<open>The server and its collaborators\<close>

text \<open>
  \<open>RequestAndRegistration\<close> and \<open>PushNotificationIDAndRegistration\<close> are declared beside
  the gateway client and the persistence layer. The registration of a
  \<open>PushNotificationIDAndRegistration\<close> is the one the store found for the identity, so it
  is a registration and not an option.
\<close>

record RequestAndRegistration =
  Request :: PushNotification
  Registration :: PushNotificationRegistration

record PushNotificationIDAndRegistration =
  ID :: bytes
  Registration_found :: PushNotificationRegistration

text \<open>
  The \<open>Persistence\<close> interface, over the state \<open>'s\<close> of the store. The two lookups read
  the store; saving returns the error, if any, and the store afterwards. A lookup that finds
  nothing returns \<open>Inr None\<close> (Go's \<open>nil, nil\<close>).
\<close>

record 's Persistence =
  GetPushNotificationRegistrationByPublicKeyAndInstallationID ::
    "'s \<Rightarrow> bytes \<Rightarrow> string \<Rightarrow> error + PushNotificationRegistration option"
  GetPushNotificationRegistrationByPublicKeys ::
    "'s \<Rightarrow> bytes list \<Rightarrow> error + PushNotificationIDAndRegistration list"
  SavePushNotificationRegistration ::
    "'s \<Rightarrow> bytes \<Rightarrow> PushNotificationRegistration \<Rightarrow> error option \<times> 's"

text \<open>
  The library functions the server calls: ECIES key agreement, \<open>common.Decrypt\<close>,
  \<open>proto.Unmarshal\<close> into a registration, \<open>uuid.Parse\<close> (only its error is used),
  \<open>common.HashPublicKey\<close> and \<open>common.Shake256\<close>. \<open>'sk\<close> is an ECDSA private key and
  \<open>'pk\<close> a public key; the functions that take a \<open>*ecdsa.PublicKey\<close> or a payload that may
  be \<open>nil\<close> take an option.
\<close>

record ('sk, 'pk) Library =
  ecies_GenerateShared :: "'sk \<Rightarrow> 'pk option \<Rightarrow> nat \<Rightarrow> nat \<Rightarrow> error + bytes"
  common_Decrypt :: "bytes option \<Rightarrow> bytes \<Rightarrow> error + bytes"
  proto_Unmarshal :: "bytes \<Rightarrow> error + PushNotificationRegistration"
  uuid_Parse :: "string \<Rightarrow> error option"
  common_HashPublicKey :: "'pk option \<Rightarrow> bytes"
  common_Shake256 :: "bytes option \<Rightarrow> bytes"

record 'sk Config =
  Identity :: 'sk
  GorushURL :: string

record ('sk, 's) Server =
  persistence :: 's
  config :: "'sk Config"

definition encryptedPayloadKeyLength :: nat where
  "encryptedPayloadKeyLength = 16"

section \<open>Validating a registration\<close>

definition generateSharedKey ::
  "('sk, 'pk) Library \<Rightarrow> ('sk, 's) Server \<Rightarrow> 'pk option \<Rightarrow> error + bytes" where
  "generateSharedKey L p publicKey =
     ecies_GenerateShared L (Identity (config p)) publicKey
       encryptedPayloadKeyLength encryptedPayloadKeyLength"

definition validateUUID :: "('sk, 'pk) Library \<Rightarrow> string \<Rightarrow> error option" where
  "validateUUID L u =
     (if length u = 0 then Some (OtherError ''empty uuid'') else uuid_Parse L u)"

definition decryptRegistration ::
  "('sk, 'pk) Library \<Rightarrow> ('sk, 's) Server \<Rightarrow> 'pk option \<Rightarrow> bytes option \<Rightarrow> error + bytes" where
  "decryptRegistration L p publicKey payload =
     (case generateSharedKey L p publicKey of
        Inl err \<Rightarrow> Inl err
      | Inr sharedKey \<Rightarrow> common_Decrypt L payload sharedKey)"

definition ValidateRegistration ::
  "('sk, 'pk) Library \<Rightarrow> 's Persistence \<Rightarrow> ('sk, 's) Server \<Rightarrow> 'pk option \<Rightarrow> bytes option
     \<Rightarrow> error + PushNotificationRegistration" where
  "ValidateRegistration L P p publicKey payload =
     (if payload = None then Inl ErrEmptyPushNotificationRegistrationPayload
      else if publicKey = None then Inl ErrEmptyPushNotificationRegistrationPublicKey
      else
       (case decryptRegistration L p publicKey payload of
          Inl err \<Rightarrow> Inl err
        | Inr decryptedPayload \<Rightarrow>
           (case proto_Unmarshal L decryptedPayload of
              Inl err \<Rightarrow> Inl ErrCouldNotUnmarshalPushNotificationRegistration
            | Inr registration \<Rightarrow>
               (if Version registration < 1
                  then Inl ErrInvalidPushNotificationRegistrationVersion
                else if validateUUID L (InstallationId registration) \<noteq> None
                  then Inl ErrMalformedPushNotificationRegistrationInstallationID
                else
                 (case GetPushNotificationRegistrationByPublicKeyAndInstallationID P
                         (persistence p) (common_HashPublicKey L publicKey)
                         (InstallationId registration) of
                    Inl err \<Rightarrow> Inl err
                  | Inr previousRegistration \<Rightarrow>
                     (if (case previousRegistration of
                            None \<Rightarrow> False
                          | Some previous \<Rightarrow> Version registration \<le> Version previous)
                        then Inl ErrInvalidPushNotificationRegistrationVersion
                      else if Unregister registration then Inr registration
                      else if validateUUID L (AccessToken registration) \<noteq> None
                        then Inl ErrMalformedPushNotificationRegistrationAccessToken
                      else if length (Token registration) = 0
                        then Inl ErrMalformedPushNotificationRegistrationDeviceToken
                      else if TokenType registration =
                              PushNotificationRegistration_UNKNOWN_TOKEN_TYPE
                        then Inl ErrUnknownPushNotificationRegistrationTokenType
                      else Inr registration))))))"

section \<open>Answering a query\<close>

text \<open>
  The entry for one stored registration: the body of the loop of
  \<open>HandlePushNotificationQuery\<close>. The fields the code does not assign keep their zero
  value.
\<close>

definition queryInfo :: "PushNotificationIDAndRegistration \<Rightarrow> PushNotificationQueryInfo" where
  "queryInfo idAndResponse =
     (let registration = Registration_found idAndResponse;
          info = \<lparr>PublicKey_info = ID idAndResponse,
                  InstallationId_info = InstallationId registration,
                  AccessToken_info = [],
                  AllowedUserList_info = []\<rparr>
      in if length (AllowedUserList registration) > 0
           then info\<lparr>AllowedUserList_info := AllowedUserList registration\<rparr>
         else info\<lparr>AccessToken_info := AccessToken registration\<rparr>)"

text \<open>The loop appends one entry per registration to \<open>response.Info\<close>, in order.\<close>

fun queryLoop ::
  "PushNotificationIDAndRegistration list \<Rightarrow> PushNotificationQueryResponse
     \<Rightarrow> PushNotificationQueryResponse" where
  "queryLoop [] response = response"
| "queryLoop (idAndResponse # registrations) response =
     queryLoop registrations (response\<lparr>Info := Info response @ [queryInfo idAndResponse]\<rparr>)"

definition HandlePushNotificationQuery ::
  "'s Persistence \<Rightarrow> ('sk, 's) Server \<Rightarrow> PushNotificationQuery option
     \<Rightarrow> PushNotificationQueryResponse" where
  "HandlePushNotificationQuery P p query =
     (let response = \<lparr>Info = [], Success_query = False\<rparr>
      in case query of
           None \<Rightarrow> response
         | Some q \<Rightarrow>
            (if length (PublicKeys q) = 0 then response
             else
              (case GetPushNotificationRegistrationByPublicKeys P (persistence p) (PublicKeys q) of
                 Inl err \<Rightarrow> response
               | Inr registrations \<Rightarrow>
                  (queryLoop registrations response)\<lparr>Success_query := True\<rparr>)))"

section \<open>Handling a notification request\<close>

text \<open>
  The loop over \<open>request.Requests\<close>, with the two lists it grows: the reports of the
  response and \<open>requestAndRegistrations\<close>, the entries that go to the gateway.
\<close>

fun requestLoop ::
  "'s Persistence \<Rightarrow> ('sk, 's) Server \<Rightarrow> PushNotification list
     \<Rightarrow> PushNotificationReport list \<Rightarrow> RequestAndRegistration list
     \<Rightarrow> PushNotificationReport list \<times> RequestAndRegistration list" where
  "requestLoop P p [] reports requestAndRegistrations = (reports, requestAndRegistrations)"
| "requestLoop P p (pn # pns) reports requestAndRegistrations =
     (let report = \<lparr>PublicKey_report = PublicKey_pn pn,
                    InstallationId_report = InstallationId_pn pn,
                    Error_report = PushNotificationReport_UNKNOWN_ERROR_TYPE,
                    Success_report = False\<rparr>
      in case GetPushNotificationRegistrationByPublicKeyAndInstallationID P (persistence p)
                (PublicKey_pn pn) (InstallationId_pn pn) of
           Inl err \<Rightarrow>
             requestLoop P p pns
               (reports @ [report\<lparr>Error_report := PushNotificationReport_UNKNOWN_ERROR_TYPE\<rparr>])
               requestAndRegistrations
         | Inr None \<Rightarrow>
             requestLoop P p pns
               (reports @ [report\<lparr>Error_report := PushNotificationReport_NOT_REGISTERED\<rparr>])
               requestAndRegistrations
         | Inr (Some registration) \<Rightarrow>
             (if AccessToken registration \<noteq> AccessToken_pn pn
                then requestLoop P p pns
                       (reports @ [report\<lparr>Error_report := PushNotificationReport_WRONG_TOKEN\<rparr>])
                       requestAndRegistrations
              else requestLoop P p pns
                     (reports @ [report\<lparr>Success_report := True\<rparr>])
                     (requestAndRegistrations @
                        [\<lparr>Request = pn, Registration = registration\<rparr>])))"

text \<open>
  What \<open>HandlePushNotificationRequest\<close> does besides returning: the call of
  \<open>sendGoRushNotification\<close> on the batch (which \<open>PushNotificationRegistrationToGoRushRequest\<close>
  turns into the gateway's format) and the configured URL. The error of the call is ignored.
\<close>

record GoRushCall =
  batch :: "RequestAndRegistration list"
  url :: string

text \<open>
  The result is the response (\<open>None\<close> for Go's \<open>nil\<close>) and the gateway call, if the
  handler makes one.
\<close>

definition HandlePushNotificationRequest ::
  "'s Persistence \<Rightarrow> ('sk, 's) Server \<Rightarrow> PushNotificationRequest option
     \<Rightarrow> PushNotificationResponse option \<times> GoRushCall option" where
  "HandlePushNotificationRequest P p request =
     (case request of
        None \<Rightarrow> (None, None)
      | Some r \<Rightarrow>
         (if length (MessageId r) = 0 then (None, None)
          else
           (let response = \<lparr>MessageId_response = MessageId r, Reports = []\<rparr>;
                (reports, requestAndRegistrations) = requestLoop P p (Requests r) (Reports response) [];
                response = response\<lparr>Reports := reports\<rparr>
            in if length requestAndRegistrations = 0 then (Some response, None)
               else (Some response,
                     Some \<lparr>batch = requestAndRegistrations, url = GorushURL (config p)\<rparr>))))"

section \<open>Handling a registration\<close>

text \<open>
  The result is the response and the server with the store as the handler leaves it.
  \<open>emptyRegistration\<close> is the struct literal of the source with the fields it does not
  name written out at their zero values.
\<close>

definition HandlePushNotificationRegistration ::
  "('sk, 'pk) Library \<Rightarrow> 's Persistence \<Rightarrow> ('sk, 's) Server \<Rightarrow> 'pk option \<Rightarrow> bytes option
     \<Rightarrow> PushNotificationRegistrationResponse \<times> ('sk, 's) Server" where
  "HandlePushNotificationRegistration L P s publicKey payload =
     (let response = \<lparr>RequestId = common_Shake256 L payload,
                      Error_registration = PushNotificationRegistrationResponse_UNKNOWN_ERROR_TYPE,
                      Success_registration = False\<rparr>
      in case ValidateRegistration L P s publicKey payload of
           Inl err \<Rightarrow>
             (if err = ErrInvalidPushNotificationRegistrationVersion
                then (response\<lparr>Error_registration :=
                                  PushNotificationRegistrationResponse_VERSION_MISMATCH\<rparr>, s)
              else (response\<lparr>Error_registration :=
                                PushNotificationRegistrationResponse_MALFORMED_MESSAGE\<rparr>, s))
         | Inr registration \<Rightarrow>
             (if Unregister registration
                then
                 (let emptyRegistration =
                        \<lparr>Token = [], TokenType = 0,
                         InstallationId = InstallationId registration,
                         AccessToken = [],
                         Version = Version registration,
                         Unregister = False, AllowedUserList = []\<rparr>;
                      (err, store) = SavePushNotificationRegistration P (persistence s)
                                       (common_HashPublicKey L publicKey) emptyRegistration
                  in if err \<noteq> None
                       then (response\<lparr>Error_registration :=
                                         PushNotificationRegistrationResponse_INTERNAL_ERROR\<rparr>,
                             s\<lparr>persistence := store\<rparr>)
                     else (response\<lparr>Success_registration := True\<rparr>,
                           s\<lparr>persistence := store\<rparr>))
              else
               (let (err, store) = SavePushNotificationRegistration P (persistence s)
                                     (common_HashPublicKey L publicKey) registration
                in if err \<noteq> None
                     then (response\<lparr>Error_registration :=
                                       PushNotificationRegistrationResponse_INTERNAL_ERROR\<rparr>,
                           s\<lparr>persistence := store\<rparr>)
                   else (response\<lparr>Success_registration := True\<rparr>,
                         s\<lparr>persistence := store\<rparr>))))"

section \<open>The loops as maps\<close>

text \<open>
  What the request loop adds for one entry: its report, and the entry with its registration
  when the tokens agree.
\<close>

definition reportFor ::
  "'s Persistence \<Rightarrow> ('sk, 's) Server \<Rightarrow> PushNotification \<Rightarrow> PushNotificationReport" where
  "reportFor P p pn =
     (let report = \<lparr>PublicKey_report = PublicKey_pn pn,
                    InstallationId_report = InstallationId_pn pn,
                    Error_report = PushNotificationReport_UNKNOWN_ERROR_TYPE,
                    Success_report = False\<rparr>
      in case GetPushNotificationRegistrationByPublicKeyAndInstallationID P (persistence p)
                (PublicKey_pn pn) (InstallationId_pn pn) of
           Inl err \<Rightarrow> report
         | Inr None \<Rightarrow> report\<lparr>Error_report := PushNotificationReport_NOT_REGISTERED\<rparr>
         | Inr (Some registration) \<Rightarrow>
             (if AccessToken registration \<noteq> AccessToken_pn pn
                then report\<lparr>Error_report := PushNotificationReport_WRONG_TOKEN\<rparr>
              else report\<lparr>Success_report := True\<rparr>))"

definition forwarded ::
  "'s Persistence \<Rightarrow> ('sk, 's) Server \<Rightarrow> PushNotification \<Rightarrow> RequestAndRegistration list" where
  "forwarded P p pn =
     (case GetPushNotificationRegistrationByPublicKeyAndInstallationID P (persistence p)
             (PublicKey_pn pn) (InstallationId_pn pn) of
        Inl err \<Rightarrow> []
      | Inr None \<Rightarrow> []
      | Inr (Some registration) \<Rightarrow>
          (if AccessToken registration \<noteq> AccessToken_pn pn then []
           else [\<lparr>Request = pn, Registration = registration\<rparr>]))"

section \<open>A store and a library to run the server on\<close>

text \<open>
  Modelled from the spec: the persistence layer is not among the sources; the spec asks for
  "a persistence store keyed by hashed-identity+installationId supporting get-by-key and
  get-by-key-set" with "atomic get/set semantics". \<open>memoryPersistence\<close> is such a store, an
  association list with the newest record of a key in front; \<open>closedPersistence\<close> is a
  store whose every operation fails.
\<close>

type_synonym memoryStore = "((bytes \<times> string) \<times> PushNotificationRegistration) list"

definition memoryPersistence :: "memoryStore Persistence" where
  "memoryPersistence =
     \<lparr>GetPushNotificationRegistrationByPublicKeyAndInstallationID =
        (\<lambda>db publicKey installationID. Inr (map_of db (publicKey, installationID))),
      GetPushNotificationRegistrationByPublicKeys =
        (\<lambda>db publicKeys.
           Inr (map (\<lambda>((publicKey, installationID), registration).
                       \<lparr>ID = publicKey, Registration_found = registration\<rparr>)
                  (filter (\<lambda>((publicKey, installationID), registration).
                             publicKey \<in> set publicKeys) db))),
      SavePushNotificationRegistration =
        (\<lambda>db publicKey registration.
           (None,
            ((publicKey, InstallationId registration), registration) #
              filter (\<lambda>(key, previous). key \<noteq> (publicKey, InstallationId registration)) db))\<rparr>"

definition closedPersistence :: "memoryStore Persistence" where
  "closedPersistence =
     \<lparr>GetPushNotificationRegistrationByPublicKeyAndInstallationID =
        (\<lambda>db publicKey installationID. Inl (OtherError ''sql: database is closed'')),
      GetPushNotificationRegistrationByPublicKeys =
        (\<lambda>db publicKeys. Inl (OtherError ''sql: database is closed'')),
      SavePushNotificationRegistration =
        (\<lambda>db publicKey registration. (Some (OtherError ''sql: database is closed''), db))\<rparr>"

text \<open>
  A stand-in for the libraries, for running the server on examples: keys are byte strings,
  a public key hashes to itself, decryption returns the payload, a payload decodes to the
  registration that \<open>messages\<close> lists for it, and a UUID is a string of 36 characters.
\<close>

definition exampleLibrary ::
  "(bytes \<times> PushNotificationRegistration) list \<Rightarrow> (bytes, bytes) Library" where
  "exampleLibrary messages =
     \<lparr>ecies_GenerateShared =
        (\<lambda>identity publicKey keyLen macLen.
           case publicKey of
             None \<Rightarrow> Inl (OtherError ''ecies: invalid public key'')
           | Some key \<Rightarrow> Inr (take keyLen (identity @ key))),
      common_Decrypt =
        (\<lambda>payload sharedKey.
           case payload of
             None \<Rightarrow> Inl (OtherError ''cipher: message authentication failed'')
           | Some cyphertext \<Rightarrow> Inr cyphertext),
      proto_Unmarshal =
        (\<lambda>decrypted.
           case map_of messages decrypted of
             None \<Rightarrow> Inl (OtherError ''proto: cannot parse'')
           | Some registration \<Rightarrow> Inr registration),
      uuid_Parse =
        (\<lambda>u. if length u = 36 then None else Some (OtherError ''invalid UUID length'')),
      common_HashPublicKey = (\<lambda>publicKey. case publicKey of None \<Rightarrow> [] | Some key \<Rightarrow> key),
      common_Shake256 = (\<lambda>payload. case payload of None \<Rightarrow> [] | Some b \<Rightarrow> b)\<rparr>"

definition exampleServer :: "memoryStore \<Rightarrow> (bytes, memoryStore) Server" where
  "exampleServer db =
     \<lparr>persistence = db,
      config = \<lparr>Identity = [1, 2, 3], GorushURL = ''http://localhost:8080/api/push''\<rparr>\<rparr>"

definition exampleInstallation :: string where
  "exampleInstallation = ''54242d02-bb92-11ea-b3de-0242ac130004''"

definition exampleAccessToken :: string where
  "exampleAccessToken = ''b6ae4fde-bb65-11ea-b3de-0242ac130004''"

text \<open>A registration of version \<open>v\<close> for the example installation, and its unregistration.\<close>

definition exampleRegistration :: "64 word \<Rightarrow> PushNotificationRegistration" where
  "exampleRegistration v =
     \<lparr>Token = ''abc'', TokenType = 1, InstallationId = exampleInstallation,
      AccessToken = exampleAccessToken, Version = v, Unregister = False,
      AllowedUserList = []\<rparr>"

definition exampleUnregistration :: "64 word \<Rightarrow> PushNotificationRegistration" where
  "exampleUnregistration v =
     \<lparr>Token = [], TokenType = 0, InstallationId = exampleInstallation,
      AccessToken = ''not-a-uuid'', Version = v, Unregister = True,
      AllowedUserList = []\<rparr>"

definition examplePushNotification :: "string \<Rightarrow> PushNotification" where
  "examplePushNotification token =
     \<lparr>PublicKey_pn = [9], InstallationId_pn = exampleInstallation, AccessToken_pn = token\<rparr>"

definition exampleAllowedRegistration :: PushNotificationRegistration where
  "exampleAllowedRegistration =
     \<lparr>Token = ''def'', TokenType = 2,
      InstallationId = ''7f5b3b9e-bb92-11ea-b3de-0242ac130004'',
      AccessToken = ''c1d1a7a0-bb65-11ea-b3de-0242ac130004'', Version = 1,
      Unregister = False, AllowedUserList = [''0x04a1'', ''0x04b2'']\<rparr>"

definition exampleStore :: memoryStore where
  "exampleStore =
     [(([9], InstallationId exampleAllowedRegistration), exampleAllowedRegistration),
      (([9], exampleInstallation), exampleRegistration 1)]"

section \<open>Basic facts\<close>

lemmas example_defs =
  exampleLibrary_def exampleServer_def memoryPersistence_def closedPersistence_def
  exampleRegistration_def exampleUnregistration_def exampleInstallation_def
  exampleAccessToken_def examplePushNotification_def exampleAllowedRegistration_def
  exampleStore_def decryptRegistration_def generateSharedKey_def validateUUID_def
  encryptedPayloadKeyLength_def PushNotificationRegistration_UNKNOWN_TOKEN_TYPE_def

text \<open>The two checks on the arguments come before anything is decrypted.\<close>

lemma ValidateRegistration_nil:
  "ValidateRegistration L P p publicKey None = Inl ErrEmptyPushNotificationRegistrationPayload"
  "ValidateRegistration L P p None (Some payload) =
     Inl ErrEmptyPushNotificationRegistrationPublicKey"
  by (simp_all add: ValidateRegistration_def)

text \<open>
  Once a payload has been decrypted and parsed, has a version of at least 1 and a valid
  installation id, and the store has answered, the rest of the validation is the comparison
  with the stored version and the checks of the token fields.
\<close>

lemma ValidateRegistration_checked:
  assumes "decryptRegistration L p (Some publicKey) (Some payload) = Inr decrypted"
    and "proto_Unmarshal L decrypted = Inr registration"
    and "1 \<le> Version registration"
    and "validateUUID L (InstallationId registration) = None"
    and "GetPushNotificationRegistrationByPublicKeyAndInstallationID P (persistence p)
           (common_HashPublicKey L (Some publicKey)) (InstallationId registration) = Inr previous"
  shows "ValidateRegistration L P p (Some publicKey) (Some payload) =
           (if (case previous of None \<Rightarrow> False
                | Some stored \<Rightarrow> Version registration \<le> Version stored)
              then Inl ErrInvalidPushNotificationRegistrationVersion
            else if Unregister registration then Inr registration
            else if validateUUID L (AccessToken registration) \<noteq> None
              then Inl ErrMalformedPushNotificationRegistrationAccessToken
            else if length (Token registration) = 0
              then Inl ErrMalformedPushNotificationRegistrationDeviceToken
            else if TokenType registration = PushNotificationRegistration_UNKNOWN_TOKEN_TYPE
              then Inl ErrUnknownPushNotificationRegistrationTokenType
            else Inr registration)"
proof -
  from assms(3) have "\<not> Version registration < 1"
    by (rule leD)
  with assms(1,2,4,5) show ?thesis
    unfolding ValidateRegistration_def by simp
qed

text \<open>Both loops append, in order, what they compute for each element.\<close>

lemma requestLoop_eq:
  "requestLoop P p pns reports requestAndRegistrations =
     (reports @ map (reportFor P p) pns,
      requestAndRegistrations @ concat (map (forwarded P p) pns))"
proof (induction pns arbitrary: reports requestAndRegistrations)
  case Nil
  show ?case by simp
next
  case (Cons pn pns)
  show ?case
    by (simp add: Cons.IH reportFor_def forwarded_def Let_def split: sum.split option.split)
qed

lemma queryLoop_eq:
  "queryLoop registrations response =
     response\<lparr>Info := Info response @ map queryInfo registrations\<rparr>"
  by (induction registrations arbitrary: response) simp_all

lemma HandlePushNotificationQuery_found:
  assumes "PublicKeys q \<noteq> []"
    and "GetPushNotificationRegistrationByPublicKeys P (persistence p) (PublicKeys q) = Inr registrations"
  shows "HandlePushNotificationQuery P p (Some q) =
           \<lparr>Info = map queryInfo registrations, Success_query = True\<rparr>"
  using assms by (simp add: HandlePushNotificationQuery_def queryLoop_eq)

lemma HandlePushNotificationRequest_eq:
  assumes "MessageId r \<noteq> []"
  shows "HandlePushNotificationRequest P p (Some r) =
           (Some \<lparr>MessageId_response = MessageId r, Reports = map (reportFor P p) (Requests r)\<rparr>,
            if concat (map (forwarded P p) (Requests r)) = [] then None
            else Some \<lparr>batch = concat (map (forwarded P p) (Requests r)),
                        url = GorushURL (config p)\<rparr>)"
  using assms by (simp add: HandlePushNotificationRequest_def requestLoop_eq Let_def)

lemma forwarded_mem:
  assumes "x \<in> set (forwarded P p pn)"
  shows "Request x = pn \<and>
         GetPushNotificationRegistrationByPublicKeyAndInstallationID P (persistence p)
           (PublicKey_pn pn) (InstallationId_pn pn) = Inr (Some (Registration x)) \<and>
         AccessToken (Registration x) = AccessToken_pn pn"
  using assms
  by (auto simp add: forwarded_def split: sum.splits option.splits if_splits)

lemma batch_mem:
  assumes "x \<in> set (concat (map (forwarded P p) pns))"
  shows "GetPushNotificationRegistrationByPublicKeyAndInstallationID P (persistence p)
           (PublicKey_pn (Request x)) (InstallationId_pn (Request x)) =
             Inr (Some (Registration x)) \<and>
         AccessToken (Registration x) = AccessToken_pn (Request x)"
proof -
  from assms obtain pn where "x \<in> set (forwarded P p pn)"
    by auto
  then show ?thesis
    using forwarded_mem [of x P p pn] by simp
qed

lemma queryInfo_fields:
  "PublicKey_info (queryInfo x) = ID x"
  "InstallationId_info (queryInfo x) = InstallationId (Registration_found x)"
  "AllowedUserList (Registration_found x) \<noteq> [] \<Longrightarrow>
     AllowedUserList_info (queryInfo x) = AllowedUserList (Registration_found x) \<and>
     AccessToken_info (queryInfo x) = []"
  "AllowedUserList (Registration_found x) = [] \<Longrightarrow>
     AccessToken_info (queryInfo x) = AccessToken (Registration_found x) \<and>
     AllowedUserList_info (queryInfo x) = []"
  by (simp_all add: queryInfo_def Let_def)

lemma unregister_saves_empty:
  assumes "ValidateRegistration L P s publicKey payload = Inr registration"
    and "Unregister registration"
    and "HandlePushNotificationRegistration L P s publicKey payload = (response, s')"
    and "Success_registration response"
  shows "SavePushNotificationRegistration P (persistence s) (common_HashPublicKey L publicKey)
           \<lparr>Token = [], TokenType = 0, InstallationId = InstallationId registration,
            AccessToken = [], Version = Version registration, Unregister = False,
            AllowedUserList = []\<rparr> = (None, persistence s')"
  using assms
  by (auto simp add: HandlePushNotificationRegistration_def Let_def
           split: prod.splits if_splits)

section \<open>Registration validation\<close>

text \<open>
  C1. Let \<open>stored\<close> be the registration the store holds for the hash of the public key
  and the installation id of an incoming registration that decrypts and parses, has a version
  of at least 1 and a valid installation id. If the incoming version is not greater than the
  stored one, \<open>ValidateRegistration\<close> fails with the invalid-version error.
\<close>

theorem stale_version_rejected:
  assumes "decryptRegistration L p (Some publicKey) (Some payload) = Inr decrypted"
    and "proto_Unmarshal L decrypted = Inr incoming"
    and "1 \<le> Version incoming"
    and "validateUUID L (InstallationId incoming) = None"
    and "GetPushNotificationRegistrationByPublicKeyAndInstallationID P (persistence p)
           (common_HashPublicKey L (Some publicKey)) (InstallationId incoming) =
             Inr (Some stored)"
    and "Version incoming \<le> Version stored"
  shows "ValidateRegistration L P p (Some publicKey) (Some payload) =
           Inl ErrInvalidPushNotificationRegistrationVersion"
  using assms by (simp add: ValidateRegistration_checked)

theorem stale_version_rejected_witness:
  "Version (exampleRegistration 2) \<le> Version (exampleRegistration 3) \<and>
   ValidateRegistration (exampleLibrary [([7], exampleRegistration 2)]) memoryPersistence
     (exampleServer [(([9], exampleInstallation), exampleRegistration 3)])
     (Some [9]) (Some [7]) = Inl ErrInvalidPushNotificationRegistrationVersion"
proof
  show "Version (exampleRegistration 2) \<le> Version (exampleRegistration 3)"
    by (simp add: exampleRegistration_def)
  show "ValidateRegistration (exampleLibrary [([7], exampleRegistration 2)]) memoryPersistence
          (exampleServer [(([9], exampleInstallation), exampleRegistration 3)])
          (Some [9]) (Some [7]) = Inl ErrInvalidPushNotificationRegistrationVersion"
    by (rule stale_version_rejected [where decrypted = "[7]"
          and incoming = "exampleRegistration 2" and stored = "exampleRegistration 3"])
       (simp_all add: example_defs)
qed

text \<open>
  C4. A registration with the unregister flag, a version of at least 1, a valid
  installation id and a version greater than that of the stored registration, if the store
  has one, validates: \<open>ValidateRegistration\<close> returns it, whatever its access token,
  device token and token type are.
\<close>

theorem unregister_validates:
  assumes "decryptRegistration L p (Some publicKey) (Some payload) = Inr decrypted"
    and "proto_Unmarshal L decrypted = Inr registration"
    and "Unregister registration"
    and "1 \<le> Version registration"
    and "validateUUID L (InstallationId registration) = None"
    and "GetPushNotificationRegistrationByPublicKeyAndInstallationID P (persistence p)
           (common_HashPublicKey L (Some publicKey)) (InstallationId registration) =
             Inr previous"
    and "\<forall>stored. previous = Some stored \<longrightarrow> Version stored < Version registration"
  shows "ValidateRegistration L P p (Some publicKey) (Some payload) = Inr registration"
proof -
  from assms(7) have "\<not> (case previous of None \<Rightarrow> False
                          | Some stored \<Rightarrow> Version registration \<le> Version stored)"
    by (cases previous) (simp_all add: not_le)
  with assms(1-6) show ?thesis
    by (simp add: ValidateRegistration_checked)
qed

text \<open>
  The unregistration of the example has no device token, the token type 0 and an access token
  that is no UUID.
\<close>

theorem unregister_validates_witness:
  "validateUUID (exampleLibrary []) (AccessToken (exampleUnregistration 2)) \<noteq> None \<and>
   ValidateRegistration (exampleLibrary [([7], exampleUnregistration 2)]) memoryPersistence
     (exampleServer [(([9], exampleInstallation), exampleRegistration 1)])
     (Some [9]) (Some [7]) = Inr (exampleUnregistration 2)"
proof
  show "validateUUID (exampleLibrary []) (AccessToken (exampleUnregistration 2)) \<noteq> None"
    by (simp add: example_defs)
  show "ValidateRegistration (exampleLibrary [([7], exampleUnregistration 2)]) memoryPersistence
          (exampleServer [(([9], exampleInstallation), exampleRegistration 1)])
          (Some [9]) (Some [7]) = Inr (exampleUnregistration 2)"
    by (rule unregister_validates [where decrypted = "[7]"
          and previous = "Some (exampleRegistration 1)"])
       (simp_all add: example_defs)
qed

text \<open>
  C6, as the code has it. The version is compared with 1 before the installation id is
  looked at, so a registration whose installation id is empty or no UUID fails with the
  invalid-version error when its version is below 1, and with the malformed-installation-id
  error otherwise. In both cases the store is not asked (the result is the same for every
  \<open>P\<close>) and the token fields are not looked at.
\<close>

theorem malformed_installation_id:
  assumes "decryptRegistration L p (Some publicKey) (Some payload) = Inr decrypted"
    and "proto_Unmarshal L decrypted = Inr registration"
    and "InstallationId registration = [] \<or>
         uuid_Parse L (InstallationId registration) \<noteq> None"
  shows "ValidateRegistration L P p (Some publicKey) (Some payload) =
           (if Version registration < 1
              then Inl ErrInvalidPushNotificationRegistrationVersion
            else Inl ErrMalformedPushNotificationRegistrationInstallationID)"
proof -
  from assms(3) have "validateUUID L (InstallationId registration) \<noteq> None"
    by (auto simp add: validateUUID_def)
  with assms(1,2) show ?thesis
    unfolding ValidateRegistration_def by simp
qed

text \<open>
  An empty installation id and one that is no UUID, both at version 1 and on a store that
  would fail if it were asked.
\<close>

theorem malformed_installation_id_witness:
  "ValidateRegistration
     (exampleLibrary [([7], (exampleRegistration 1)\<lparr>InstallationId := []\<rparr>),
                      ([8], (exampleRegistration 1)\<lparr>InstallationId := ''x''\<rparr>)])
     closedPersistence (exampleServer []) (Some [9]) (Some [7]) =
       Inl ErrMalformedPushNotificationRegistrationInstallationID \<and>
   ValidateRegistration
     (exampleLibrary [([7], (exampleRegistration 1)\<lparr>InstallationId := []\<rparr>),
                      ([8], (exampleRegistration 1)\<lparr>InstallationId := ''x''\<rparr>)])
     closedPersistence (exampleServer []) (Some [9]) (Some [8]) =
       Inl ErrMalformedPushNotificationRegistrationInstallationID"
  using
    malformed_installation_id [where decrypted = "[7]"
      and registration = "(exampleRegistration 1)\<lparr>InstallationId := []\<rparr>"
      and L = "exampleLibrary [([7], (exampleRegistration 1)\<lparr>InstallationId := []\<rparr>),
                               ([8], (exampleRegistration 1)\<lparr>InstallationId := ''x''\<rparr>)]"
      and p = "exampleServer []" and publicKey = "[9]" and payload = "[7]"
      and P = closedPersistence]
    malformed_installation_id [where decrypted = "[8]"
      and registration = "(exampleRegistration 1)\<lparr>InstallationId := ''x''\<rparr>"
      and L = "exampleLibrary [([7], (exampleRegistration 1)\<lparr>InstallationId := []\<rparr>),
                               ([8], (exampleRegistration 1)\<lparr>InstallationId := ''x''\<rparr>)]"
      and p = "exampleServer []" and publicKey = "[9]" and payload = "[8]"
      and P = closedPersistence]
  by (simp add: example_defs)

text \<open>
  The claim as the specification states it, that a malformed installation id always gives
  the malformed-installation-id error, fails for a registration of version 0 with an empty
  installation id: the version check comes first and answers.
\<close>

theorem malformed_installation_id_counterexample:
  "proto_Unmarshal (exampleLibrary [([7], (exampleRegistration 0)\<lparr>InstallationId := []\<rparr>)]) [7] =
     Inr ((exampleRegistration 0)\<lparr>InstallationId := []\<rparr>) \<and>
   ValidateRegistration (exampleLibrary [([7], (exampleRegistration 0)\<lparr>InstallationId := []\<rparr>)])
     memoryPersistence (exampleServer []) (Some [9]) (Some [7]) =
       Inl ErrInvalidPushNotificationRegistrationVersion \<and>
   ValidateRegistration (exampleLibrary [([7], (exampleRegistration 0)\<lparr>InstallationId := []\<rparr>)])
     memoryPersistence (exampleServer []) (Some [9]) (Some [7]) \<noteq>
       Inl ErrMalformedPushNotificationRegistrationInstallationID"
  by (simp add: ValidateRegistration_def example_defs)

section \<open>Handling a registration that does not validate\<close>

text \<open>
  C5. When \<open>ValidateRegistration\<close> fails with \<open>err\<close>,
  \<open>HandlePushNotificationRegistration\<close> answers with the hash of the payload as request
  id, no success, and the error code \<open>VERSION_MISMATCH\<close> if \<open>err\<close> is the
  invalid-version error and \<open>MALFORMED_MESSAGE\<close> if it is any other error; so the code is
  \<open>VERSION_MISMATCH\<close> exactly for the invalid-version error. Nothing is saved.
\<close>

theorem registration_error_code:
  assumes "ValidateRegistration L P s publicKey payload = Inl err"
  shows "HandlePushNotificationRegistration L P s publicKey payload =
           (\<lparr>RequestId = common_Shake256 L payload,
             Error_registration =
               (if err = ErrInvalidPushNotificationRegistrationVersion
                  then PushNotificationRegistrationResponse_VERSION_MISMATCH
                else PushNotificationRegistrationResponse_MALFORMED_MESSAGE),
             Success_registration = False\<rparr>, s) \<and>
         (Error_registration (fst (HandlePushNotificationRegistration L P s publicKey payload)) =
            PushNotificationRegistrationResponse_VERSION_MISMATCH) =
         (err = ErrInvalidPushNotificationRegistrationVersion)"
  using assms by (simp add: HandlePushNotificationRegistration_def)

text \<open>A stale version, and a payload that does not parse.\<close>

theorem registration_error_code_witness:
  "fst (HandlePushNotificationRegistration (exampleLibrary [([7], exampleRegistration 2)])
          memoryPersistence
          (exampleServer [(([9], exampleInstallation), exampleRegistration 3)])
          (Some [9]) (Some [7])) =
     \<lparr>RequestId = [7],
      Error_registration = PushNotificationRegistrationResponse_VERSION_MISMATCH,
      Success_registration = False\<rparr> \<and>
   fst (HandlePushNotificationRegistration (exampleLibrary [([7], exampleRegistration 2)])
          memoryPersistence (exampleServer []) (Some [9]) (Some [8])) =
     \<lparr>RequestId = [8],
      Error_registration = PushNotificationRegistrationResponse_MALFORMED_MESSAGE,
      Success_registration = False\<rparr>"
proof -
  have stale:
    "ValidateRegistration (exampleLibrary [([7], exampleRegistration 2)]) memoryPersistence
       (exampleServer [(([9], exampleInstallation), exampleRegistration 3)])
       (Some [9]) (Some [7]) = Inl ErrInvalidPushNotificationRegistrationVersion"
    by (simp add: ValidateRegistration_def example_defs)
  have garbled:
    "ValidateRegistration (exampleLibrary [([7], exampleRegistration 2)]) memoryPersistence
       (exampleServer []) (Some [9]) (Some [8]) =
         Inl ErrCouldNotUnmarshalPushNotificationRegistration"
    by (simp add: ValidateRegistration_def example_defs)
  show ?thesis
    using registration_error_code [OF stale] registration_error_code [OF garbled]
    by (simp add: exampleLibrary_def)
qed

section \<open>Queries\<close>

text \<open>
  C7. A null query and a query with no identity get the empty response with
  \<open>success = false\<close>. A query with at least one identity whose lookup does not fail gets
  \<open>success = true\<close> and one entry per registration found; when none is found, that is the
  response with no entry and \<open>success = true\<close>.
\<close>

theorem query_success_flag:
  "HandlePushNotificationQuery P p None = \<lparr>Info = [], Success_query = False\<rparr> \<and>
   (PublicKeys q0 = [] \<longrightarrow>
      HandlePushNotificationQuery P p (Some q0) = \<lparr>Info = [], Success_query = False\<rparr>) \<and>
   (PublicKeys q \<noteq> [] \<longrightarrow>
      (\<forall>registrations.
         GetPushNotificationRegistrationByPublicKeys P (persistence p) (PublicKeys q) =
           Inr registrations \<longrightarrow>
         Success_query (HandlePushNotificationQuery P p (Some q)) \<and>
         length (Info (HandlePushNotificationQuery P p (Some q))) = length registrations) \<and>
      (GetPushNotificationRegistrationByPublicKeys P (persistence p) (PublicKeys q) = Inr [] \<longrightarrow>
         HandlePushNotificationQuery P p (Some q) = \<lparr>Info = [], Success_query = True\<rparr>))"
proof (intro conjI impI allI)
  show "HandlePushNotificationQuery P p None = \<lparr>Info = [], Success_query = False\<rparr>"
    by (simp add: HandlePushNotificationQuery_def)
next
  assume "PublicKeys q0 = []"
  then show "HandlePushNotificationQuery P p (Some q0) = \<lparr>Info = [], Success_query = False\<rparr>"
    by (simp add: HandlePushNotificationQuery_def)
next
  fix registrations
  assume "PublicKeys q \<noteq> []"
    and "GetPushNotificationRegistrationByPublicKeys P (persistence p) (PublicKeys q) =
           Inr registrations"
  then show "Success_query (HandlePushNotificationQuery P p (Some q))"
    and "length (Info (HandlePushNotificationQuery P p (Some q))) = length registrations"
    by (simp_all add: HandlePushNotificationQuery_found)
next
  assume "PublicKeys q \<noteq> []"
    and "GetPushNotificationRegistrationByPublicKeys P (persistence p) (PublicKeys q) = Inr []"
  then show "HandlePushNotificationQuery P p (Some q) = \<lparr>Info = [], Success_query = True\<rparr>"
    by (simp add: HandlePushNotificationQuery_found)
qed

text \<open>A query with no identity, and a query for an identity the store does not know.\<close>

theorem query_success_flag_witness:
  "HandlePushNotificationQuery memoryPersistence (exampleServer exampleStore) None =
     \<lparr>Info = [], Success_query = False\<rparr> \<and>
   HandlePushNotificationQuery memoryPersistence (exampleServer exampleStore)
     (Some \<lparr>PublicKeys = []\<rparr>) = \<lparr>Info = [], Success_query = False\<rparr> \<and>
   HandlePushNotificationQuery memoryPersistence (exampleServer exampleStore)
     (Some \<lparr>PublicKeys = [[4]]\<rparr>) = \<lparr>Info = [], Success_query = True\<rparr>"
  using query_success_flag [of memoryPersistence "exampleServer exampleStore"
          "\<lparr>PublicKeys = []\<rparr>" "\<lparr>PublicKeys = [[4]]\<rparr>"]
  by (simp add: example_defs)

text \<open>
  C8. When the lookup of a query with at least one identity fails,
  \<open>HandlePushNotificationQuery\<close> returns the empty response: no entry, \<open>success\<close> not
  set. The handler has no error result, so the error of the store goes nowhere.
\<close>

theorem query_lookup_failure:
  assumes "PublicKeys q \<noteq> []"
    and "GetPushNotificationRegistrationByPublicKeys P (persistence p) (PublicKeys q) = Inl err"
  shows "HandlePushNotificationQuery P p (Some q) = \<lparr>Info = [], Success_query = False\<rparr>"
  using assms by (simp add: HandlePushNotificationQuery_def)

theorem query_lookup_failure_witness:
  "HandlePushNotificationQuery closedPersistence (exampleServer exampleStore)
     (Some \<lparr>PublicKeys = [[9]]\<rparr>) = \<lparr>Info = [], Success_query = False\<rparr>"
  by (rule query_lookup_failure [where err = "OtherError ''sql: database is closed''"])
     (simp_all add: example_defs)

text \<open>
  C3, as the code has it. The entry for a stored registration has the identity and the
  installation id, and
  \<^item> if the registration's \<open>AllowedUserList\<close> is not empty, the entry has that list and an
    empty access token;
  \<^item> if the list is empty, the entry has the registration's access token and an empty list.
  So no entry has both a list and a token, and an entry has neither exactly when the
  stored registration has an empty list and an empty access token, which is the record an
  unregistration leaves.
\<close>

theorem query_discloses_list_or_token:
  assumes "PublicKeys q \<noteq> []"
    and "GetPushNotificationRegistrationByPublicKeys P (persistence p) (PublicKeys q) =
           Inr registrations"
    and "i < length registrations"
    and "info = Info (HandlePushNotificationQuery P p (Some q)) ! i"
    and "registration = Registration_found (registrations ! i)"
  shows "length (Info (HandlePushNotificationQuery P p (Some q))) = length registrations \<and>
         PublicKey_info info = ID (registrations ! i) \<and>
         InstallationId_info info = InstallationId registration \<and>
         (AllowedUserList registration \<noteq> [] \<longrightarrow>
            AllowedUserList_info info = AllowedUserList registration \<and>
            AccessToken_info info = []) \<and>
         (AllowedUserList registration = [] \<longrightarrow>
            AccessToken_info info = AccessToken registration \<and>
            AllowedUserList_info info = []) \<and>
         (AllowedUserList_info info = [] \<or> AccessToken_info info = []) \<and>
         (AllowedUserList_info info = [] \<and> AccessToken_info info = []) =
           (AllowedUserList registration = [] \<and> AccessToken registration = [])"
proof -
  from assms(1-4) have "info = queryInfo (registrations ! i)"
    by (simp add: HandlePushNotificationQuery_found)
  with assms(1,2,5) show ?thesis
    by (cases "AllowedUserList registration = []")
       (simp_all add: HandlePushNotificationQuery_found queryInfo_fields)
qed

text \<open>
  Two installations of one identity, the first with a list of allowed users, the second
  without.
\<close>

theorem query_discloses_list_or_token_witness:
  "Info (HandlePushNotificationQuery memoryPersistence (exampleServer exampleStore)
           (Some \<lparr>PublicKeys = [[9]]\<rparr>)) =
     [\<lparr>PublicKey_info = [9],
       InstallationId_info = ''7f5b3b9e-bb92-11ea-b3de-0242ac130004'',
       AccessToken_info = [],
       AllowedUserList_info = [''0x04a1'', ''0x04b2'']\<rparr>,
      \<lparr>PublicKey_info = [9],
       InstallationId_info = exampleInstallation,
       AccessToken_info = exampleAccessToken,
       AllowedUserList_info = []\<rparr>]"
proof -
  let ?q = "\<lparr>PublicKeys = [[9]]\<rparr>"
  let ?found = "[\<lparr>ID = [9], Registration_found = exampleAllowedRegistration\<rparr>,
                 \<lparr>ID = [9], Registration_found = exampleRegistration 1\<rparr>]"
  have keys: "PublicKeys ?q \<noteq> []"
    by simp
  have found: "GetPushNotificationRegistrationByPublicKeys memoryPersistence
          (persistence (exampleServer exampleStore)) (PublicKeys ?q) = Inr ?found"
    by (simp add: example_defs)
  have first: "0 < length ?found" and second: "1 < length ?found"
    by simp_all
  from query_discloses_list_or_token [OF keys found first refl refl]
       query_discloses_list_or_token [OF keys found second refl refl]
  show ?thesis
    by (simp add: HandlePushNotificationQuery_def queryInfo_def example_defs)
qed

text \<open>
  The claim as the specification states it, that every entry discloses exactly one of the
  two, fails after an unregistration: the handler stores a registration with only the version
  and the installation id, and the entry of the next query for that identity has no list and
  an empty access token.
\<close>

theorem query_discloses_list_or_token_counterexample:
  "HandlePushNotificationRegistration (exampleLibrary [([7], exampleUnregistration 2)])
     memoryPersistence (exampleServer [(([9], exampleInstallation), exampleRegistration 1)])
     (Some [9]) (Some [7]) =
     (\<lparr>RequestId = [7],
       Error_registration = PushNotificationRegistrationResponse_UNKNOWN_ERROR_TYPE,
       Success_registration = True\<rparr>,
      exampleServer
        [(([9], exampleInstallation),
          \<lparr>Token = [], TokenType = 0, InstallationId = exampleInstallation,
           AccessToken = [], Version = 2, Unregister = False, AllowedUserList = []\<rparr>)]) \<and>
   HandlePushNotificationQuery memoryPersistence
     (exampleServer
        [(([9], exampleInstallation),
          \<lparr>Token = [], TokenType = 0, InstallationId = exampleInstallation,
           AccessToken = [], Version = 2, Unregister = False, AllowedUserList = []\<rparr>)])
     (Some \<lparr>PublicKeys = [[9]]\<rparr>) =
     \<lparr>Info = [\<lparr>PublicKey_info = [9], InstallationId_info = exampleInstallation,
               AccessToken_info = [], AllowedUserList_info = []\<rparr>],
      Success_query = True\<rparr>"
  by (simp add: HandlePushNotificationRegistration_def ValidateRegistration_def
                HandlePushNotificationQuery_def queryInfo_def example_defs word_le_nat_alt)

section \<open>Notification requests\<close>

text \<open>
  C9. For a null request and for a request with an empty message id,
  \<open>HandlePushNotificationRequest\<close> returns no response (and calls no gateway); for a
  request with a message id it returns a response with that message id.
\<close>

theorem request_without_message_id:
  "HandlePushNotificationRequest P p None = (None, None) \<and>
   (MessageId r0 = [] \<longrightarrow> HandlePushNotificationRequest P p (Some r0) = (None, None)) \<and>
   (MessageId r \<noteq> [] \<longrightarrow>
      (\<exists>response. fst (HandlePushNotificationRequest P p (Some r)) = Some response \<and>
         MessageId_response response = MessageId r))"
  by (simp add: HandlePushNotificationRequest_eq)
     (simp add: HandlePushNotificationRequest_def)

theorem request_without_message_id_witness:
  "HandlePushNotificationRequest memoryPersistence (exampleServer exampleStore)
     (Some \<lparr>MessageId = [], Requests = [examplePushNotification exampleAccessToken]\<rparr>) =
       (None, None) \<and>
   fst (HandlePushNotificationRequest memoryPersistence (exampleServer exampleStore)
     (Some \<lparr>MessageId = [1], Requests = []\<rparr>)) =
       Some \<lparr>MessageId_response = [1], Reports = []\<rparr>"
  using request_without_message_id [of memoryPersistence "exampleServer exampleStore"
          "\<lparr>MessageId = [], Requests = [examplePushNotification exampleAccessToken]\<rparr>"
          "\<lparr>MessageId = [1], Requests = []\<rparr>"]
  by (simp add: HandlePushNotificationRequest_def)

text \<open>
  C2. Take a request with a message id and its entry number \<open>i\<close>. If the store holds a
  registration for the entry's identity and installation id, and the access token of the
  entry is not the stored one, the response has one report per entry, the report number
  \<open>i\<close> names the entry and has \<open>success = false\<close> and the error \<open>WRONG_TOKEN\<close>, and
  the entry is not in the batch of a gateway call, if there is a call.
\<close>

theorem wrong_token_reported:
  assumes "MessageId r \<noteq> []"
    and "i < length (Requests r)"
    and "GetPushNotificationRegistrationByPublicKeyAndInstallationID P (persistence p)
           (PublicKey_pn (Requests r ! i)) (InstallationId_pn (Requests r ! i)) =
             Inr (Some registration)"
    and "AccessToken registration \<noteq> AccessToken_pn (Requests r ! i)"
  shows "(\<exists>response. fst (HandlePushNotificationRequest P p (Some r)) = Some response \<and>
            length (Reports response) = length (Requests r) \<and>
            Reports response ! i =
              \<lparr>PublicKey_report = PublicKey_pn (Requests r ! i),
               InstallationId_report = InstallationId_pn (Requests r ! i),
               Error_report = PushNotificationReport_WRONG_TOKEN,
               Success_report = False\<rparr>) \<and>
         (\<forall>call. snd (HandlePushNotificationRequest P p (Some r)) = Some call \<longrightarrow>
            Requests r ! i \<notin> Request ` set (batch call))"
proof (intro conjI allI impI)
  have "reportFor P p (Requests r ! i) =
          \<lparr>PublicKey_report = PublicKey_pn (Requests r ! i),
           InstallationId_report = InstallationId_pn (Requests r ! i),
           Error_report = PushNotificationReport_WRONG_TOKEN,
           Success_report = False\<rparr>"
    using assms(3,4) by (simp add: reportFor_def)
  with assms(1,2)
  show "\<exists>response. fst (HandlePushNotificationRequest P p (Some r)) = Some response \<and>
          length (Reports response) = length (Requests r) \<and>
          Reports response ! i =
            \<lparr>PublicKey_report = PublicKey_pn (Requests r ! i),
             InstallationId_report = InstallationId_pn (Requests r ! i),
             Error_report = PushNotificationReport_WRONG_TOKEN,
             Success_report = False\<rparr>"
    by (simp add: HandlePushNotificationRequest_eq)
next
  fix call
  assume "snd (HandlePushNotificationRequest P p (Some r)) = Some call"
  with assms(1) have b: "batch call = concat (map (forwarded P p) (Requests r))"
    by (auto simp add: HandlePushNotificationRequest_eq split: if_splits)
  show "Requests r ! i \<notin> Request ` set (batch call)"
  proof
    assume "Requests r ! i \<in> Request ` set (batch call)"
    then obtain x where "x \<in> set (batch call)" and e: "Request x = Requests r ! i"
      by (auto simp add: image_iff)
    with b have x: "x \<in> set (concat (map (forwarded P p) (Requests r)))"
      by simp
    from batch_mem [OF x] e assms(3,4) show False
      by simp
  qed
qed

text \<open>
  Two entries for the example installation, the first with its access token and the second
  with a guess: the gateway gets the first only.
\<close>

theorem wrong_token_reported_witness:
  "HandlePushNotificationRequest memoryPersistence (exampleServer exampleStore)
     (Some \<lparr>MessageId = [1],
            Requests = [examplePushNotification exampleAccessToken,
                        examplePushNotification ''guess'']\<rparr>) =
   (Some \<lparr>MessageId_response = [1],
          Reports =
            [\<lparr>PublicKey_report = [9], InstallationId_report = exampleInstallation,
              Error_report = PushNotificationReport_UNKNOWN_ERROR_TYPE,
              Success_report = True\<rparr>,
             \<lparr>PublicKey_report = [9], InstallationId_report = exampleInstallation,
              Error_report = PushNotificationReport_WRONG_TOKEN,
              Success_report = False\<rparr>]\<rparr>,
    Some \<lparr>batch = [\<lparr>Request = examplePushNotification exampleAccessToken,
                     Registration = exampleRegistration 1\<rparr>],
          url = ''http://localhost:8080/api/push''\<rparr>)"
proof -
  let ?r = "\<lparr>MessageId = [1],
             Requests = [examplePushNotification exampleAccessToken,
                         examplePushNotification ''guess'']\<rparr>"
  have "MessageId ?r \<noteq> []" and "1 < length (Requests ?r)"
    and "GetPushNotificationRegistrationByPublicKeyAndInstallationID memoryPersistence
           (persistence (exampleServer exampleStore))
           (PublicKey_pn (Requests ?r ! 1)) (InstallationId_pn (Requests ?r ! 1)) =
             Inr (Some (exampleRegistration 1))"
    and "AccessToken (exampleRegistration 1) \<noteq> AccessToken_pn (Requests ?r ! 1)"
    by (simp_all add: example_defs)
  from wrong_token_reported [OF this] show ?thesis
    by (simp add: HandlePushNotificationRequest_def example_defs)
qed

section \<open>A request after an unregistration\<close>

text \<open>
  C10. Let the store return what was last saved under a key. After
  \<open>HandlePushNotificationRegistration\<close> has handled an unregistration with success, the
  registration stored for the hash of the public key and the installation id has an empty
  access token. A request with a message id that has an entry for that identity and
  installation with the empty string as access token then gets a report with
  \<open>success = true\<close> for the entry (its error is neither \<open>NOT_REGISTERED\<close> nor
  \<open>WRONG_TOKEN\<close>), and the entry is in the batch of the gateway call.
\<close>

theorem unregistered_accepts_empty_token:
  assumes "\<forall>db key saved db'.
             SavePushNotificationRegistration P db key saved = (None, db') \<longrightarrow>
             GetPushNotificationRegistrationByPublicKeyAndInstallationID P db' key
               (InstallationId saved) = Inr (Some saved)"
    and "ValidateRegistration L P s publicKey payload = Inr registration"
    and "Unregister registration"
    and "HandlePushNotificationRegistration L P s publicKey payload = (response, s')"
    and "Success_registration response"
    and "MessageId r \<noteq> []"
    and "i < length (Requests r)"
    and "Requests r ! i =
           \<lparr>PublicKey_pn = common_HashPublicKey L publicKey,
            InstallationId_pn = InstallationId registration,
            AccessToken_pn = []\<rparr>"
  shows "(\<exists>stored.
            GetPushNotificationRegistrationByPublicKeyAndInstallationID P (persistence s')
              (common_HashPublicKey L publicKey) (InstallationId registration) =
                Inr (Some stored) \<and>
            AccessToken stored = []) \<and>
         (\<exists>answer call.
            HandlePushNotificationRequest P s' (Some r) = (Some answer, Some call) \<and>
            length (Reports answer) = length (Requests r) \<and>
            PublicKey_report (Reports answer ! i) = common_HashPublicKey L publicKey \<and>
            InstallationId_report (Reports answer ! i) = InstallationId registration \<and>
            Success_report (Reports answer ! i) \<and>
            Error_report (Reports answer ! i) \<noteq> PushNotificationReport_NOT_REGISTERED \<and>
            Error_report (Reports answer ! i) \<noteq> PushNotificationReport_WRONG_TOKEN \<and>
            Requests r ! i \<in> Request ` set (batch call))"
proof -
  let ?empty = "\<lparr>Token = [], TokenType = 0, InstallationId = InstallationId registration,
                 AccessToken = [], Version = Version registration, Unregister = False,
                 AllowedUserList = []\<rparr>"
  let ?pn = "Requests r ! i"
  have "SavePushNotificationRegistration P (persistence s) (common_HashPublicKey L publicKey)
          ?empty = (None, persistence s')"
    using assms(2-5) by (rule unregister_saves_empty)
  with assms(1)
  have "GetPushNotificationRegistrationByPublicKeyAndInstallationID P (persistence s')
          (common_HashPublicKey L publicKey) (InstallationId ?empty) = Inr (Some ?empty)"
    by blast
  then have stored:
    "GetPushNotificationRegistrationByPublicKeyAndInstallationID P (persistence s')
       (common_HashPublicKey L publicKey) (InstallationId registration) = Inr (Some ?empty)"
    by simp
  have report: "reportFor P s' ?pn =
      \<lparr>PublicKey_report = common_HashPublicKey L publicKey,
       InstallationId_report = InstallationId registration,
       Error_report = PushNotificationReport_UNKNOWN_ERROR_TYPE,
       Success_report = True\<rparr>"
    using stored assms(8) by (simp add: reportFor_def)
  have entry: "forwarded P s' ?pn = [\<lparr>Request = ?pn, Registration = ?empty\<rparr>]"
    using stored assms(8) by (simp add: forwarded_def)
  from assms(7) have "?pn \<in> set (Requests r)"
    by simp
  with entry have inBatch:
    "\<lparr>Request = ?pn, Registration = ?empty\<rparr> \<in> set (concat (map (forwarded P s') (Requests r)))"
    by force
  then have nonempty: "concat (map (forwarded P s') (Requests r)) \<noteq> []"
    by force
  from inBatch have "?pn \<in> Request ` set (concat (map (forwarded P s') (Requests r)))"
    by force
  with nonempty report assms(6,7) have
    "\<exists>answer call.
        HandlePushNotificationRequest P s' (Some r) = (Some answer, Some call) \<and>
        length (Reports answer) = length (Requests r) \<and>
        PublicKey_report (Reports answer ! i) = common_HashPublicKey L publicKey \<and>
        InstallationId_report (Reports answer ! i) = InstallationId registration \<and>
        Success_report (Reports answer ! i) \<and>
        Error_report (Reports answer ! i) \<noteq> PushNotificationReport_NOT_REGISTERED \<and>
        Error_report (Reports answer ! i) \<noteq> PushNotificationReport_WRONG_TOKEN \<and>
        Requests r ! i \<in> Request ` set (batch call)"
    by (simp add: HandlePushNotificationRequest_eq)
  with stored show ?thesis
    by simp
qed

text \<open>
  The example installation is unregistered with version 2, and then asked for with the empty
  access token.
\<close>

theorem unregistered_accepts_empty_token_witness:
  "HandlePushNotificationRegistration (exampleLibrary [([7], exampleUnregistration 2)])
     memoryPersistence (exampleServer exampleStore) (Some [9]) (Some [7]) =
     (\<lparr>RequestId = [7],
       Error_registration = PushNotificationRegistrationResponse_UNKNOWN_ERROR_TYPE,
       Success_registration = True\<rparr>,
      exampleServer
        [(([9], exampleInstallation), (exampleRegistration 2)\<lparr>Token := [], TokenType := 0, AccessToken := []\<rparr>),
         (([9], InstallationId exampleAllowedRegistration), exampleAllowedRegistration)]) \<and>
   HandlePushNotificationRequest memoryPersistence
     (exampleServer
        [(([9], exampleInstallation), (exampleRegistration 2)\<lparr>Token := [], TokenType := 0, AccessToken := []\<rparr>),
         (([9], InstallationId exampleAllowedRegistration), exampleAllowedRegistration)])
     (Some \<lparr>MessageId = [1], Requests = [examplePushNotification []]\<rparr>) =
     (Some \<lparr>MessageId_response = [1],
            Reports =
              [\<lparr>PublicKey_report = [9], InstallationId_report = exampleInstallation,
                Error_report = PushNotificationReport_UNKNOWN_ERROR_TYPE,
                Success_report = True\<rparr>]\<rparr>,
      Some \<lparr>batch = [\<lparr>Request = examplePushNotification [],
                       Registration = (exampleRegistration 2)\<lparr>Token := [], TokenType := 0, AccessToken := []\<rparr>\<rparr>],
            url = ''http://localhost:8080/api/push''\<rparr>)"
proof -
  let ?L = "exampleLibrary [([7], exampleUnregistration 2)]"
  let ?s = "exampleServer exampleStore"
  let ?s' = "exampleServer
        [(([9], exampleInstallation), (exampleRegistration 2)\<lparr>Token := [], TokenType := 0, AccessToken := []\<rparr>),
         (([9], InstallationId exampleAllowedRegistration), exampleAllowedRegistration)]"
  let ?response = "\<lparr>RequestId = [7],
       Error_registration = PushNotificationRegistrationResponse_UNKNOWN_ERROR_TYPE,
       Success_registration = True\<rparr>"
  let ?r = "\<lparr>MessageId = [1], Requests = [examplePushNotification []]\<rparr>"
  have law: "\<forall>db key saved db'.
      SavePushNotificationRegistration memoryPersistence db key saved = (None, db') \<longrightarrow>
      GetPushNotificationRegistrationByPublicKeyAndInstallationID memoryPersistence db' key
        (InstallationId saved) = Inr (Some saved)"
    by (auto simp add: memoryPersistence_def)
  have valid: "ValidateRegistration ?L memoryPersistence ?s (Some [9]) (Some [7]) =
      Inr (exampleUnregistration 2)"
    by (simp add: ValidateRegistration_def example_defs word_le_nat_alt)
  have flag: "Unregister (exampleUnregistration 2)"
    by (simp add: exampleUnregistration_def)
  have handled: "HandlePushNotificationRegistration ?L memoryPersistence ?s (Some [9]) (Some [7]) =
      (?response, ?s')"
    by (simp add: HandlePushNotificationRegistration_def valid flag)
       (simp add: example_defs)
  have success: "Success_registration ?response"
    by simp
  have request: "MessageId ?r \<noteq> []" "0 < length (Requests ?r)"
    "Requests ?r ! 0 =
       \<lparr>PublicKey_pn = common_HashPublicKey ?L (Some [9]),
        InstallationId_pn = InstallationId (exampleUnregistration 2),
        AccessToken_pn = []\<rparr>"
    by (simp_all add: example_defs)
  from unregistered_accepts_empty_token [OF law valid flag handled success request]
  show ?thesis
    by (simp add: handled)
       (simp add: HandlePushNotificationRequest_def example_defs)
qed

end
